theory Spec2Isabelle
  imports Main "HOL-Library.AList"
begin

section \<open>JavaScript values handled by the framework\<close>

text \<open>
  Numbers: the code only tests numbers for truthiness, compares them with \<open>===\<close> and
  converts them with \<open>String\<close>; it never does arithmetic. They are modelled as the
  integer-valued numbers plus \<open>NaN\<close> (the one number that is not strictly equal to itself).
\<close>

datatype jsnum = NaN | Num int

text \<open>
  Attribute values: primitives, functions (identified by the identity of the function
  object) and style mappings (an object: its identity and its own entries).
\<close>

type_synonym handler = nat

datatype jsval =
    JUndefined
  | JNull
  | JBool bool
  | JNum jsnum
  | JStr string
  | JFun handler
  | JObj nat "(string \<times> string) list"

datatype jstype = TUndefined | TObject | TBoolean | TNumber | TString | TFunction

fun typeof_val :: "jsval \<Rightarrow> jstype" where
  "typeof_val JUndefined = TUndefined"
| "typeof_val JNull = TObject"
| "typeof_val (JBool b) = TBoolean"
| "typeof_val (JNum n) = TNumber"
| "typeof_val (JStr s) = TString"
| "typeof_val (JFun f) = TFunction"
| "typeof_val (JObj r es) = TObject"

text \<open>Strict equality \<open>===\<close>: by value on primitives, by identity on functions and objects.\<close>

fun strict_eq :: "jsval \<Rightarrow> jsval \<Rightarrow> bool" where
  "strict_eq (JNum a) (JNum b) = (a \<noteq> NaN \<and> a = b)"
| "strict_eq (JObj r es) (JObj r' es') = (r = r')"
| "strict_eq a b = (a = b)"

type_synonym attrs = "(string \<times> jsval) list"

text \<open>
  An attribute mapping is a plain object, given as the list of its own entries in
  iteration order (\<open>Object.entries\<close>). A plain object inherits the members of
  \<open>Object.prototype\<close>: eleven functions (the function identities 0 to 10 are theirs) and
  the accessor \<open>__proto__\<close>, which reads as \<open>Object.prototype\<close> itself (the object of
  identity 0, with no entry of its own).
\<close>

definition object_prototype :: attrs where
  "object_prototype =
     [(''constructor'', JFun 0), (''__defineGetter__'', JFun 1), (''__defineSetter__'', JFun 2),
      (''hasOwnProperty'', JFun 3), (''__lookupGetter__'', JFun 4), (''__lookupSetter__'', JFun 5),
      (''isPrototypeOf'', JFun 6), (''propertyIsEnumerable'', JFun 7), (''toString'', JFun 8),
      (''valueOf'', JFun 9), (''toLocaleString'', JFun 10), (''__proto__'', JObj 0 [])]"

text \<open>A name that every plain object has without owning it.\<close>

definition inherited :: "string \<Rightarrow> bool" where
  "inherited key = (map_of object_prototype key \<noteq> None)"

text \<open>
  \<open>js_get\<close> is the property read \<open>attrs[key]\<close>: the own entry, else the inherited member,
  else \<open>undefined\<close>. \<open>js_in\<close> is \<open>key in attrs\<close>, true for own and for inherited names.
\<close>

definition js_get :: "attrs \<Rightarrow> string \<Rightarrow> jsval" where
  "js_get as key =
     (case map_of as key of
        Some v \<Rightarrow> v
      | None \<Rightarrow> (case map_of object_prototype key of Some m \<Rightarrow> m | None \<Rightarrow> JUndefined))"

definition js_in :: "string \<Rightarrow> attrs \<Rightarrow> bool" where
  "js_in key as = (map_of as key \<noteq> None \<or> inherited key)"

text \<open>A mapping none of whose own keys is the name of a member of \<open>Object.prototype\<close>.\<close>

definition plain_keys :: "attrs \<Rightarrow> bool" where
  "plain_keys as = list_all (\<lambda>kv. \<not> inherited (fst kv)) as"

definition or_empty :: "'a list option \<Rightarrow> 'a list" where
  "or_empty d = (case d of None \<Rightarrow> [] | Some xs \<Rightarrow> xs)"

section \<open>Tree descriptions (dom.js)\<close>

text \<open>
  What can stand in a node position: the absent values \<open>null\<close>, \<open>undefined\<close> and
  \<open>false\<close>, a text scalar (string or number), an element object \<open>{tag, attrs, children}\<close>,
  and a JavaScript array (a nested child group that \<open>Array.prototype.flat\<close> left in place).
\<close>

datatype vnode =
    VNull
  | VUndefined
  | VFalse
  | VStr string
  | VNum jsnum
  | VElem string attrs "vnode list"
  | VArr "vnode list"

fun typeof :: "vnode \<Rightarrow> jstype" where
  "typeof VNull = TObject"
| "typeof VUndefined = TUndefined"
| "typeof VFalse = TBoolean"
| "typeof (VStr s) = TString"
| "typeof (VNum n) = TNumber"
| "typeof (VElem t a c) = TObject"
| "typeof (VArr xs) = TObject"

text \<open>\<open>falsy v\<close> is the JavaScript test \<open>!v\<close>.\<close>

fun falsy :: "vnode \<Rightarrow> bool" where
  "falsy VNull = True"
| "falsy VUndefined = True"
| "falsy VFalse = True"
| "falsy (VStr s) = (s = [])"
| "falsy (VNum n) = (n = NaN \<or> n = Num 0)"
| "falsy (VElem t a c) = False"
| "falsy (VArr xs) = False"

text \<open>The absent values of the data model: \<open>null\<close>, \<open>undefined\<close>, \<open>false\<close>.\<close>

fun absent :: "vnode \<Rightarrow> bool" where
  "absent VNull = True"
| "absent VUndefined = True"
| "absent VFalse = True"
| "absent v = False"

fun is_array :: "vnode \<Rightarrow> bool" where
  "is_array (VArr xs) = True"
| "is_array v = False"

text \<open>Property reads \<open>v.tag\<close>, \<open>v.attrs\<close>, \<open>v.children\<close>; \<open>None\<close> is \<open>undefined\<close>.\<close>

fun tag :: "vnode \<Rightarrow> string option" where
  "tag (VElem t a c) = Some t"
| "tag v = None"

fun attrs :: "vnode \<Rightarrow> attrs option" where
  "attrs (VElem t a c) = Some a"
| "attrs v = None"

fun children :: "vnode \<Rightarrow> vnode list option" where
  "children (VElem t a c) = Some c"
| "children v = None"

text \<open>\<open>xs[i]\<close> on an array: \<open>undefined\<close> out of range.\<close>

definition js_index :: "vnode list \<Rightarrow> nat \<Rightarrow> vnode" where
  "js_index xs i = (if i < length xs then xs ! i else VUndefined)"

subsection \<open>createElement\<close>

text \<open>\<open>Array.prototype.flat()\<close> with its default depth 1.\<close>

fun flat :: "vnode list \<Rightarrow> vnode list" where
  "flat [] = []"
| "flat (VArr xs # rest) = xs @ flat rest"
| "flat (x # rest) = x # flat rest"

text \<open>
  \<open>createElement(tag, attrs = {}, children = [])\<close>: an argument \<open>None\<close> is an omitted
  (\<open>undefined\<close>) argument. The spread \<open>{...attrs}\<close> copies the entries in order.
\<close>

definition createElement :: "string \<Rightarrow> attrs option \<Rightarrow> vnode list option \<Rightarrow> vnode" where
  "createElement t as cs = VElem t (or_empty as) (flat (or_empty cs))"

text \<open>
  The full flattening of a nested sequence, following the wording of the specification
  (\<open>nesting at every depth\<close>); it is compared with what \<open>createElement\<close> stores.
\<close>

fun spec_flatten_all :: "vnode \<Rightarrow> vnode list" where
  "spec_flatten_all (VArr xs) = concat (map spec_flatten_all xs)"
| "spec_flatten_all v = [v]"

text \<open>A children argument nested at most one level deep: no group inside a group.\<close>

definition one_level :: "vnode list \<Rightarrow> bool" where
  "one_level cs =
     list_all (\<lambda>c. case c of VArr xs \<Rightarrow> list_all (\<lambda>x. \<not> is_array x) xs | _ \<Rightarrow> True) cs"

subsection \<open>diff, diffAttrs, diffChildren\<close>

datatype vpatch =
    CREATE vnode
  | REMOVE
  | REPLACE vnode
  | UPDATE attrs "vpatch option list"

text \<open>
  The two loops of \<open>diffAttrs\<close> push onto \<open>patches\<close>; the removal record carries
  \<open>undefined\<close> as its value.
\<close>

definition diffAttrs :: "attrs option \<Rightarrow> attrs option \<Rightarrow> attrs" where
  "diffAttrs oldAttrs newAttrs =
     (let oldAttrs = or_empty oldAttrs; newAttrs = or_empty newAttrs;
          patches = [];
          patches = foldl (\<lambda>patches (key, v).
                      if \<not> strict_eq (js_get oldAttrs key) v then patches @ [(key, v)]
                      else patches) patches newAttrs;
          patches = foldl (\<lambda>patches key.
                      if \<not> js_in key newAttrs then patches @ [(key, JUndefined)]
                      else patches) patches (map fst oldAttrs)
      in patches)"

text \<open>
  The attribute-change list as the specification words it (\<open>a key missing in old counts
  as different\<close>); it is compared with \<open>diffAttrs\<close>.
\<close>

definition spec_attr_changes :: "attrs \<Rightarrow> attrs \<Rightarrow> attrs" where
  "spec_attr_changes old new =
     filter (\<lambda>(key, v). case map_of old key of
                           None \<Rightarrow> True
                         | Some ov \<Rightarrow> \<not> strict_eq ov v) new
     @ map (\<lambda>key. (key, JUndefined)) (filter (\<lambda>key. map_of new key = None) (map fst old))"

text \<open>
  \<open>diff\<close> returns \<open>null\<close> (here \<open>None\<close>) when a position needs no change. In the text
  branch both nodes are truthy scalars of the same type, where \<open>!==\<close> is inequality of
  the values.
\<close>

function diff :: "vnode \<Rightarrow> vnode \<Rightarrow> vpatch option"
  and diffChildren :: "vnode list option \<Rightarrow> vnode list option \<Rightarrow> vpatch option list"
where
  "diff oldNode newNode =
     (if falsy oldNode then Some (CREATE newNode)
      else if falsy newNode then Some REMOVE
      else if typeof oldNode \<noteq> typeof newNode then Some (REPLACE newNode)
      else if typeof newNode = TString \<or> typeof newNode = TNumber then
        (if oldNode \<noteq> newNode then Some (REPLACE newNode) else None)
      else if tag oldNode \<noteq> tag newNode then Some (REPLACE newNode)
      else Some (UPDATE (diffAttrs (attrs oldNode) (attrs newNode))
                        (diffChildren (children oldNode) (children newNode))))"
| "diffChildren oldChildren newChildren =
     (let oldChildren = or_empty oldChildren; newChildren = or_empty newChildren;
          maxLength = max (length oldChildren) (length newChildren)
      in map (\<lambda>i. diff (js_index oldChildren i) (js_index newChildren i)) [0..<maxLength])"
  by pat_completeness auto

definition diff_measure ::
  "vnode \<times> vnode + vnode list option \<times> vnode list option \<Rightarrow> nat" where
  "diff_measure x = (case x of
       Inl (a, b) \<Rightarrow> 2 * (size a + size b) + 1
     | Inr (xs, ys) \<Rightarrow> 2 * (size_list size (or_empty xs) + size_list size (or_empty ys)))"

termination diff
proof (relation "measure diff_measure")
  show "wf (measure diff_measure)"
    by simp
next
  fix oldNode newNode :: vnode
  have "size_list size (or_empty (children v)) \<le> size v" for v
    by (cases v) (simp_all add: or_empty_def)
  from this [of oldNode] this [of newNode]
  show "(Inr (children oldNode, children newNode), Inl (oldNode, newNode))
      \<in> measure diff_measure"
    by (simp add: diff_measure_def)
next
  fix oldChildren newChildren :: "vnode list option" and x xa :: "vnode list" and xb xc :: nat
  assume a: "x = or_empty oldChildren" "xa = or_empty newChildren"
    "xb = max (length x) (length xa)" "xc \<in> set [0..<xb]"
  have lt: "size (js_index ys i) < size_list size ys" if "i < length ys" for ys i
    using that
  proof (induction ys arbitrary: i)
    case Nil
    then show ?case by simp
  next
    case (Cons y ys)
    show ?case
    proof (cases i)
      case 0
      then show ?thesis by (simp add: js_index_def)
    next
      case (Suc j)
      with Cons.prems have "j < length ys" by simp
      from Cons.IH [OF this] Suc \<open>j < length ys\<close> show ?thesis
        by (simp add: js_index_def)
    qed
  qed
  have le: "size (js_index ys i) \<le> size_list size ys" for ys i
    using lt [of i ys] by (cases "i < length ys") (simp_all add: js_index_def)
  from a have "xc < length x \<or> xc < length xa" by auto
  then have "size (js_index x xc) + size (js_index xa xc) < size_list size x + size_list size xa"
  proof
    assume "xc < length x"
    from lt [OF this] le [of xa xc] show ?thesis by linarith
  next
    assume "xc < length xa"
    from lt [OF this] le [of x xc] show ?thesis by linarith
  qed
  with a show "(Inl (js_index x xc, js_index xa xc), Inr (oldChildren, newChildren))
      \<in> measure diff_measure"
    by (simp add: diff_measure_def)
qed

declare diff.simps [simp del] diffChildren.simps [simp del]

section \<open>The event registry (events.js)\<close>

text \<open>
  The state of one HTML element, without its children. \<open>eventRegistry\<close> is a
  \<open>WeakMap\<close> keyed by the identity of the element, so the entry of an element is a field
  of that element: \<open>registry\<close> is \<open>eventRegistry.get(element)\<close> (\<open>None\<close>: no entry), an
  object from event names to handler arrays. \<open>listeners\<close> holds the event names whose
  \<open>on<event>\<close> property is the dispatching closure installed by \<open>bindEvent\<close>.
  \<open>attributes\<close> are the content attributes, \<open>props\<close> the properties assigned with
  \<open>element[key] = value\<close>, \<open>style\<close> the entries of \<open>element.style\<close>. The values are
  kept as they were passed; the conversions the browser applies to them are not modelled.
\<close>

record element =
  tagName :: string
  attributes :: attrs
  style :: "(string \<times> string) list"
  props :: attrs
  registry :: "(string \<times> handler list) list option"
  listeners :: "string list"

datatype error = TypeError | HierarchyRequestError | SyntaxError

text \<open>
  \<open>bindEvent\<close> takes the events object of the element (a new plain object when the
  element has no entry, stored then). When \<open>events[event]\<close> is an own handler array, the
  handler is pushed at its end. When the name is not an own key, \<open>events[event]\<close> reads
  the inherited member if there is one: it is truthy, so no array is started, and it has
  no \<open>push\<close>, so the call raises a \<open>TypeError\<close>. Otherwise (\<open>!events[event]\<close>) the handler
  array is started, the closure is installed as \<open>on<event>\<close> and the handler is pushed.
  A call that raises returns the exception.
\<close>

definition bindEvent :: "element \<Rightarrow> string \<Rightarrow> handler \<Rightarrow> error + element" where
  "bindEvent el event h =
     (let events = (case registry el of None \<Rightarrow> [] | Some evs \<Rightarrow> evs) in
      case map_of events event of
        Some handlers \<Rightarrow>
          Inr (el\<lparr>registry := Some (AList.update event (handlers @ [h]) events)\<rparr>)
      | None \<Rightarrow>
          if inherited event then Inl TypeError
          else Inr (el\<lparr>registry := Some (AList.update event [h] events),
                       listeners := List.insert event (listeners el)\<rparr>))"

text \<open>
  An event fired on the element. The browser calls the property \<open>on<event>\<close> only for
  the event names that are event-handler attributes of the element (\<open>onclick\<close>,
  \<open>oninput\<close>, ...): \<open>wired\<close> says which names these are; for any other name the property
  is a plain property that nothing calls. The closure of \<open>bindEvent\<close> runs
  \<open>events[event].forEach(fn => fn(e))\<close>: the result is the list of handlers called, in
  call order.
\<close>

definition dispatch :: "(string \<Rightarrow> bool) \<Rightarrow> element \<Rightarrow> string \<Rightarrow> error + handler list" where
  "dispatch wired el event =
     (if wired event \<and> event \<in> set (listeners el) then
        (case map_of (case registry el of None \<Rightarrow> [] | Some evs \<Rightarrow> evs) event of
           None \<Rightarrow> Inl TypeError
         | Some handlers \<Rightarrow> Inr handlers)
      else Inr [])"


text \<open>
  The state every element is in whose handlers were bound through this module: the
  closure is installed for exactly the events that have a handler array.
\<close>

definition registry_ok :: "element \<Rightarrow> bool" where
  "registry_ok el =
     (set (listeners el) = fst ` set (case registry el of None \<Rightarrow> [] | Some evs \<Rightarrow> evs))"

text \<open>
  \<open>removeListener\<close> strips a leading \<open>on\<close> from the event name, removes the first
  occurrence of the handler (\<open>indexOf\<close>, \<open>splice\<close>) and, when no handler is left, resets
  the \<open>on<event>\<close> property and deletes the handler array. For an inherited name that is
  not an own key, \<open>handlers\<close> is the inherited member, which has no \<open>indexOf\<close>.
  \<open>removeAllListeners\<close> resets the property of every registered event and deletes the
  entry of the element.
\<close>

definition removeListener :: "element \<Rightarrow> string \<Rightarrow> handler \<Rightarrow> error + element" where
  "removeListener el event h =
     (let cleanEvent = (if take 2 event = ''on'' then drop 2 event else event) in
      case registry el of
        None \<Rightarrow> Inr el
      | Some events \<Rightarrow>
          (case map_of events cleanEvent of
             None \<Rightarrow> if inherited cleanEvent then Inl TypeError else Inr el
           | Some handlers \<Rightarrow>
               if h \<notin> set handlers then Inr el
               else if remove1 h handlers = [] then
                 Inr (el\<lparr>registry := Some (AList.delete cleanEvent events),
                         listeners := removeAll cleanEvent (listeners el)\<rparr>)
               else Inr (el\<lparr>registry :=
                                Some (AList.update cleanEvent (remove1 h handlers) events)\<rparr>)))"

definition removeAllListeners :: "element \<Rightarrow> element" where
  "removeAllListeners el =
     (case registry el of
        None \<Rightarrow> el
      | Some events \<Rightarrow>
          el\<lparr>registry := None,
             listeners := filter (\<lambda>e. map_of events e = None) (listeners el)\<rparr>)"

section \<open>The display tree\<close>

text \<open>
  A display node is a character-data node or an element with its child nodes. The
  operations below are the ones the framework calls. A text node has no
  \<open>setAttribute\<close>, \<open>removeAttribute\<close> or \<open>style\<close> (calling them is a \<open>TypeError\<close>) and
  accepts no children (\<open>appendChild\<close> raises \<open>HierarchyRequestError\<close>); a plain property
  assigned to a text node is not display state. Attributes, properties and style are
  separate stores: the reflection between a content attribute and its property is not
  modelled.
\<close>

datatype dnode = DText string | DElem element "dnode list"

definition new_element :: "string \<Rightarrow> element" where
  "new_element t = \<lparr>tagName = t, attributes = [], style = [], props = [],
                     registry = None, listeners = []\<rparr>"

fun childNodes :: "dnode \<Rightarrow> dnode list" where
  "childNodes (DElem el cs) = cs"
| "childNodes (DText d) = []"

text \<open>\<open>parent.childNodes[index]\<close>; \<open>None\<close> is \<open>undefined\<close>.\<close>

definition child_at :: "dnode \<Rightarrow> nat \<Rightarrow> dnode option" where
  "child_at parent index =
     (if index < length (childNodes parent) then Some (childNodes parent ! index) else None)"

fun appendChild :: "dnode \<Rightarrow> dnode \<Rightarrow> error + dnode" where
  "appendChild (DElem el cs) c = Inr (DElem el (cs @ [c]))"
| "appendChild (DText d) c = Inl HierarchyRequestError"

text \<open>
  \<open>removeChild\<close> and \<open>replaceChild\<close> are called with the child found at \<open>index\<close>, which
  is addressed here by that index. \<open>with_child\<close> writes back a child that was changed in
  place.
\<close>

fun removeChild :: "dnode \<Rightarrow> nat \<Rightarrow> dnode" where
  "removeChild (DElem el cs) index = DElem el (take index cs @ drop (Suc index) cs)"
| "removeChild (DText d) index = DText d"

fun replaceChild :: "dnode \<Rightarrow> dnode \<Rightarrow> nat \<Rightarrow> dnode" where
  "replaceChild (DElem el cs) newChild index = DElem el (cs[index := newChild])"
| "replaceChild (DText d) newChild index = DText d"

fun with_child :: "dnode \<Rightarrow> nat \<Rightarrow> dnode \<Rightarrow> dnode" where
  "with_child (DElem el cs) index c = DElem el (cs[index := c])"
| "with_child (DText d) index c = DText d"

fun clear_innerHTML :: "dnode \<Rightarrow> dnode" where
  "clear_innerHTML (DElem el cs) = DElem el []"
| "clear_innerHTML (DText d) = DText d"

definition set_attribute :: "element \<Rightarrow> string \<Rightarrow> jsval \<Rightarrow> element" where
  "set_attribute el key v = el\<lparr>attributes := AList.update key v (attributes el)\<rparr>"

definition remove_attribute :: "element \<Rightarrow> string \<Rightarrow> element" where
  "remove_attribute el key = el\<lparr>attributes := AList.delete key (attributes el)\<rparr>"

text \<open>\<open>element.className = v\<close> sets the \<open>class\<close> attribute.\<close>

definition set_className :: "element \<Rightarrow> jsval \<Rightarrow> element" where
  "set_className el v = set_attribute el ''class'' v"

text \<open>\<open>Object.assign(element.style, v)\<close>; a \<open>null\<close> source is skipped.\<close>

definition assign_style :: "element \<Rightarrow> jsval \<Rightarrow> element" where
  "assign_style el v =
     (case v of
        JObj r entries \<Rightarrow>
          el\<lparr>style := foldl (\<lambda>st (k, x). AList.update k x st) (style el) entries\<rparr>
      | _ \<Rightarrow> el)"

text \<open>\<open>element[key] = v\<close>: a live property.\<close>

definition set_property :: "element \<Rightarrow> string \<Rightarrow> jsval \<Rightarrow> element" where
  "set_property el key v = el\<lparr>props := AList.update key v (props el)\<rparr>"

text \<open>
  An operation on a display node that is a plain property assignment (\<open>on_element\<close>:
  harmless on a text node) or a method that only elements have (\<open>method_of_element\<close>).
\<close>

fun on_element :: "(element \<Rightarrow> element) \<Rightarrow> dnode \<Rightarrow> dnode" where
  "on_element f (DElem el cs) = DElem (f el) cs"
| "on_element f (DText d) = DText d"

fun method_of_element :: "(element \<Rightarrow> element) \<Rightarrow> dnode \<Rightarrow> error + dnode" where
  "method_of_element f (DElem el cs) = Inr (DElem (f el) cs)"
| "method_of_element f (DText d) = Inl TypeError"

text \<open>
  \<open>bindEvent\<close> called with a display node. A text node gets its registry entry and the
  plain property \<open>on<event>\<close> like any object, neither of which is display state or ever
  called; an inherited name raises on it as on an element.
\<close>

fun bindEvent_node :: "dnode \<Rightarrow> string \<Rightarrow> handler \<Rightarrow> error + dnode" where
  "bindEvent_node (DElem el cs) event h =
     (case bindEvent el event h of
        Inl e \<Rightarrow> Inl e
      | Inr el' \<Rightarrow> Inr (DElem el' cs))"
| "bindEvent_node (DText d) event h = (if inherited event then Inl TypeError else Inr (DText d))"

subsection \<open>Strings\<close>

definition startsWith_on :: "string \<Rightarrow> bool" where
  "startsWith_on key = (take 2 key = ''on'')"

definition toLowerCase :: "string \<Rightarrow> string" where
  "toLowerCase s = map (\<lambda>c. case map_of (zip ''ABCDEFGHIJKLMNOPQRSTUVWXYZ''
                                              ''abcdefghijklmnopqrstuvwxyz'') c of
                               None \<Rightarrow> c | Some l \<Rightarrow> l) s"

definition digit_char :: "nat \<Rightarrow> char" where
  "digit_char d = ''0123456789'' ! d"

fun show_nat :: "nat \<Rightarrow> string" where
  "show_nat n =
     (if n < 10 then [digit_char n] else show_nat (n div 10) @ [digit_char (n mod 10)])"

declare show_nat.simps [simp del]

text \<open>
  \<open>String(n)\<close> for a number, in plain decimal digits (as \<open>String\<close> writes an integer
  below \<open>10^21\<close>; from there on it switches to exponent notation, which is not modelled).
\<close>

fun js_String :: "jsnum \<Rightarrow> string" where
  "js_String NaN = ''NaN''"
| "js_String (Num i) = (if i < 0 then CHR ''-'' # show_nat (nat (- i)) else show_nat (nat i))"

subsection \<open>createDOMElement\<close>

text \<open>The body of the attribute loop of \<open>createDOMElement\<close>, on the element just created.\<close>

definition createAttr :: "element \<Rightarrow> string \<times> jsval \<Rightarrow> error + element" where
  "createAttr el kv =
     (case kv of (key, v) \<Rightarrow>
        (case (startsWith_on key, v) of
           (True, JFun h) \<Rightarrow> bindEvent el (toLowerCase (drop 2 key)) h
         | _ \<Rightarrow>
            if key = ''className'' \<or> key = ''class'' then Inr (set_className el v)
            else if key = ''style'' \<and> typeof_val v = TObject then Inr (assign_style el v)
            else if key = ''checked'' \<or> key = ''disabled'' \<or> key = ''selected'' then
              Inr (set_property el key v)
            else if key = ''value'' then Inr (set_property el ''value'' v)
            else Inr (set_attribute el key v)))"

text \<open>The attribute loop of \<open>createDOMElement\<close>; an exception ends it.\<close>

fun createAttrs :: "element \<Rightarrow> attrs \<Rightarrow> error + element" where
  "createAttrs el [] = Inr el"
| "createAttrs el (kv # rest) =
     (case createAttr el kv of
        Inl e \<Rightarrow> Inl e
      | Inr el' \<Rightarrow> createAttrs el' rest)"

text \<open>
  \<open>createDOMElement\<close> returns the new display node (\<open>None\<close>: \<open>null\<close>), or the exception
  raised while binding an event handler. \<open>createChildren\<close> is its child loop: the
  children are materialized in order and those that are not \<open>null\<close> are appended. An
  array in node position has no \<open>tag\<close>, \<open>attrs\<close> or \<open>children\<close>:
  \<open>document.createElement(undefined)\<close> makes an element named \<open>undefined\<close>.
\<close>

fun createDOMElement :: "vnode \<Rightarrow> error + dnode option"
  and createChildren :: "vnode list \<Rightarrow> error + dnode list"
where
  "createDOMElement VNull = Inr None"
| "createDOMElement VUndefined = Inr None"
| "createDOMElement VFalse = Inr None"
| "createDOMElement (VStr s) = Inr (Some (DText s))"
| "createDOMElement (VNum n) = Inr (Some (DText (js_String n)))"
| "createDOMElement (VElem t as cs) =
     (case createAttrs (new_element t) as of
        Inl e \<Rightarrow> Inl e
      | Inr element \<Rightarrow>
          (case createChildren cs of
             Inl e \<Rightarrow> Inl e
           | Inr childElements \<Rightarrow> Inr (Some (DElem element childElements))))"
| "createDOMElement (VArr xs) = Inr (Some (DElem (new_element ''undefined'') []))"
| "createChildren [] = Inr []"
| "createChildren (child # rest) =
     (case createDOMElement child of
        Inl e \<Rightarrow> Inl e
      | Inr childElement \<Rightarrow>
          (case createChildren rest of
             Inl e \<Rightarrow> Inl e
           | Inr others \<Rightarrow>
               Inr ((case childElement of None \<Rightarrow> [] | Some c \<Rightarrow> [c]) @ others)))"

subsection \<open>patch, patchAttrs, patchChildren\<close>

text \<open>The body of the loop of \<open>patchAttrs\<close>.\<close>

definition patchAttr :: "dnode \<Rightarrow> string \<times> jsval \<Rightarrow> error + dnode" where
  "patchAttr element kv =
     (case kv of (key, v) \<Rightarrow>
        (case (startsWith_on key, v) of
           (True, JFun h) \<Rightarrow> bindEvent_node element (toLowerCase (drop 2 key)) h
         | _ \<Rightarrow>
            if v = JUndefined then method_of_element (\<lambda>el. remove_attribute el key) element
            else if key = ''className'' \<or> key = ''class'' then
              Inr (on_element (\<lambda>el. set_className el v) element)
            else if key = ''style'' \<and> typeof_val v = TObject then
              method_of_element (\<lambda>el. assign_style el v) element
            else if key = ''checked'' \<or> key = ''disabled'' \<or> key = ''value'' then
              Inr (on_element (\<lambda>el. set_property el key v) element)
            else method_of_element (\<lambda>el. set_attribute el key v) element))"

fun patchAttrs :: "dnode \<Rightarrow> attrs \<Rightarrow> error + dnode" where
  "patchAttrs element [] = Inr element"
| "patchAttrs element (p # ps) =
     (case patchAttr element p of
        Inl e \<Rightarrow> Inl e
      | Inr element' \<Rightarrow> patchAttrs element' ps)"

text \<open>
  \<open>patch\<close> returns the parent after the change, or the exception that a display
  operation raised. \<open>patchChildren_from parent childPatches i\<close> is the loop of
  \<open>patchChildren\<close> from index \<open>i\<close> on.
\<close>

fun patch :: "dnode \<Rightarrow> vpatch option \<Rightarrow> nat \<Rightarrow> error + dnode"
  and patchChildren_from :: "dnode \<Rightarrow> vpatch option list \<Rightarrow> nat \<Rightarrow> error + dnode"
where
  "patch parent None index = Inr parent"
| "patch parent (Some (CREATE newNode)) index =
     (case createDOMElement newNode of
        Inl e \<Rightarrow> Inl e
      | Inr None \<Rightarrow> Inr parent
      | Inr (Some newElement) \<Rightarrow> appendChild parent newElement)"
| "patch parent (Some REMOVE) index =
     (case child_at parent index of
        None \<Rightarrow> Inr parent
      | Some element \<Rightarrow> Inr (removeChild parent index))"
| "patch parent (Some (REPLACE newNode)) index =
     (case createDOMElement newNode of
        Inl e \<Rightarrow> Inl e
      | Inr made \<Rightarrow>
          (case (child_at parent index, made) of
             (Some element, Some newElement) \<Rightarrow> Inr (replaceChild parent newElement index)
           | (None, Some newElement) \<Rightarrow> appendChild parent newElement
           | (_, None) \<Rightarrow> Inr parent))"
| "patch parent (Some (UPDATE attrPatches childPatches)) index =
     (case child_at parent index of
        None \<Rightarrow> Inr parent
      | Some element \<Rightarrow>
          (case patchAttrs element attrPatches of
             Inl e \<Rightarrow> Inl e
           | Inr element' \<Rightarrow>
               (case patchChildren_from element' childPatches 0 of
                  Inl e \<Rightarrow> Inl e
                | Inr element'' \<Rightarrow> Inr (with_child parent index element''))))"
| "patchChildren_from parent [] i = Inr parent"
| "patchChildren_from parent (p # ps) i =
     (case patch parent p i of
        Inl e \<Rightarrow> Inl e
      | Inr parent' \<Rightarrow> patchChildren_from parent' ps (Suc i))"

definition patchChildren :: "dnode \<Rightarrow> vpatch option list \<Rightarrow> error + dnode" where
  "patchChildren parent childPatches = patchChildren_from parent childPatches 0"

subsection \<open>mount\<close>

text \<open>
  A mount target is a selector string, a display node (given by its identity) or
  \<open>null\<close>/\<open>undefined\<close>. The world holds what \<open>mount\<close> reads and writes:
  \<open>document.querySelector\<close> (it returns the element found, \<open>None\<close> for no match, or
  raises a \<open>SyntaxError\<close> for a string that is not a selector), the display node of every
  identity, the \<open>WeakMap\<close> \<open>virtualTreeCache\<close> keyed by container identity, and the calls
  of \<open>console.error\<close>. Containers are separate roots: one is not inside the tree of
  another. A call that raises returns the exception.
\<close>

datatype target = TSelector string | TNode nat | TNull | TUndefined

record world =
  querySelector :: "string \<Rightarrow> error + nat option"
  node_at :: "nat \<Rightarrow> dnode"
  virtualTreeCache :: "nat \<Rightarrow> vnode option"
  console_error :: "(string \<times> target) list"

text \<open>
  \<open>typeof target === 'string' ? document.querySelector(target) : target\<close>; \<open>Inr None\<close>
  is a container that fails the test \<open>!container\<close>.
\<close>

definition resolve :: "world \<Rightarrow> target \<Rightarrow> error + nat option" where
  "resolve w t =
     (case t of
        TSelector sel \<Rightarrow> querySelector w sel
      | TNode c \<Rightarrow> Inr (Some c)
      | TNull \<Rightarrow> Inr None
      | TUndefined \<Rightarrow> Inr None)"

text \<open>The branch \<open>if (!oldVNode)\<close>: clear the container, materialize, append.\<close>

definition first_render :: "dnode \<Rightarrow> vnode \<Rightarrow> error + dnode" where
  "first_render container vNode =
     (let container = clear_innerHTML container in
      case createDOMElement vNode of
        Inl e \<Rightarrow> Inl e
      | Inr None \<Rightarrow> Inr container
      | Inr (Some element) \<Rightarrow> appendChild container element)"

definition mount :: "target \<Rightarrow> vnode \<Rightarrow> world \<Rightarrow> error + world" where
  "mount t vNode w =
     (case resolve w t of
        Inl e \<Rightarrow> Inl e
      | Inr None \<Rightarrow>
          Inr (w\<lparr>console_error := console_error w @ [(''Mount target not found:'', t)]\<rparr>)
      | Inr (Some container) \<Rightarrow>
          (case (case virtualTreeCache w container of
                   None \<Rightarrow> first_render (node_at w container) vNode
                 | Some oldVNode \<Rightarrow>
                     if falsy oldVNode then first_render (node_at w container) vNode
                     else patch (node_at w container) (diff oldVNode vNode) 0) of
             Inl e \<Rightarrow> Inl e
           | Inr node \<Rightarrow>
               Inr (w\<lparr>node_at := (node_at w)(container := node),
                       virtualTreeCache := (virtualTreeCache w)(container \<mapsto> vNode)\<rparr>)))"

section \<open>Rendering the same description again\<close>

text \<open>
  A description that compares equal to itself everywhere \<open>diff\<close> looks: every text
  scalar in it passes the truthiness test (no empty string, no 0, no NaN), the keys of
  every attribute mapping are unique (as the keys of an object are) and no attribute value
  is NaN.
\<close>

fun steady :: "vnode \<Rightarrow> bool" where
  "steady (VStr s) = (s \<noteq> [])"
| "steady (VNum n) = (n \<noteq> NaN \<and> n \<noteq> Num 0)"
| "steady (VElem t as cs) =
     (distinct (map fst as) \<and> (\<forall>kv \<in> set as. strict_eq (snd kv) (snd kv))
      \<and> (\<forall>c \<in> set cs. steady c))"
| "steady v = True"

text \<open>
  The patches that the specification expects from diffing a description against itself:
  NONE, or an UPDATE with no attribute change whose child patches are of this form again.
\<close>

fun spec_no_change :: "vpatch option \<Rightarrow> bool" where
  "spec_no_change None = True"
| "spec_no_change (Some (UPDATE as ps)) = (as = [] \<and> (\<forall>p \<in> set ps. spec_no_change p))"
| "spec_no_change (Some p) = False"

text \<open>The same, with CREATE of an absent node allowed: \<open>patch\<close> materializes it to nothing.\<close>

fun inert :: "vpatch option \<Rightarrow> bool" where
  "inert None = True"
| "inert (Some (CREATE v)) = absent v"
| "inert (Some (UPDATE as ps)) = (as = [] \<and> (\<forall>p \<in> set ps. inert p))"
| "inert (Some p) = False"

text \<open>
  A document for the examples: the selector \<open>#app\<close> finds container 0, the empty string
  is not a selector, any other selector finds nothing; every container is an empty
  \<open>div\<close>, nothing is cached and nothing was logged.
\<close>

definition page :: world where
  "page = \<lparr>querySelector = (\<lambda>sel. if sel = [] then Inl SyntaxError
                                    else if sel = ''#app'' then Inr (Some 0) else Inr None),
            node_at = (\<lambda>c. DElem (new_element ''div'') []),
            virtualTreeCache = (\<lambda>c. None),
            console_error = []\<rparr>"

section \<open>Properties of the differ\<close>

lemma foldl_push:
  "foldl (\<lambda>acc x. if P x then acc @ [f x] else acc) acc xs = acc @ map f (filter P xs)"
  by (induction xs arbitrary: acc) simp_all

lemma diffAttrs_eq:
  "diffAttrs (Some old) (Some new) =
     filter (\<lambda>(key, v). \<not> strict_eq (js_get old key) v) new
     @ map (\<lambda>key. (key, JUndefined)) (filter (\<lambda>key. \<not> js_in key new) (map fst old))"
proof -
  have 1: "(\<lambda>patches (key, v).
              if \<not> strict_eq (js_get old key) v then patches @ [(key, v)] else patches)
      = (\<lambda>acc x. if (case x of (key, v) \<Rightarrow> \<not> strict_eq (js_get old key) v)
                  then acc @ [id x] else acc)"
    by (auto simp: fun_eq_iff)
  show ?thesis
    unfolding diffAttrs_def Let_def or_empty_def option.case 1
    by (simp add: foldl_push)
qed

text \<open>
  Reads of names that are not inherited: a missing key reads as \<open>undefined\<close>, and \<open>in\<close>
  is the test for an own key.
\<close>

lemma js_get_plain:
  "\<not> inherited key \<Longrightarrow>
   js_get as key = (case map_of as key of None \<Rightarrow> JUndefined | Some v \<Rightarrow> v)"
  by (simp add: js_get_def inherited_def split: option.splits)

lemma js_in_plain: "\<not> inherited key \<Longrightarrow> js_in key as = (map_of as key \<noteq> None)"
  by (simp add: js_in_def)

lemma diffAttrs_plain:
  assumes "plain_keys old" and "plain_keys new"
  shows "diffAttrs (Some old) (Some new) =
     filter (\<lambda>(key, v). case map_of old key of
                           None \<Rightarrow> v \<noteq> JUndefined
                         | Some ov \<Rightarrow> \<not> strict_eq ov v) new
     @ map (\<lambda>key. (key, JUndefined)) (filter (\<lambda>key. map_of new key = None) (map fst old))"
proof -
  have 1: "filter (\<lambda>(key, v). \<not> strict_eq (js_get old key) v) new
      = filter (\<lambda>(key, v). case map_of old key of
                           None \<Rightarrow> v \<noteq> JUndefined
                         | Some ov \<Rightarrow> \<not> strict_eq ov v) new"
  proof (rule filter_cong [OF refl])
    fix x assume "x \<in> set new"
    with assms(2) have "\<not> inherited (fst x)"
      by (simp add: plain_keys_def list_all_iff)
    then show "(case x of (key, v) \<Rightarrow> \<not> strict_eq (js_get old key) v)
        = (case x of (key, v) \<Rightarrow> case map_of old key of
                           None \<Rightarrow> v \<noteq> JUndefined
                         | Some ov \<Rightarrow> \<not> strict_eq ov v)"
      by (cases x) (auto simp: js_get_plain split: option.splits)
  qed
  have 2: "filter (\<lambda>key. \<not> js_in key new) (map fst old)
      = filter (\<lambda>key. map_of new key = None) (map fst old)"
  proof (rule filter_cong [OF refl])
    fix key assume "key \<in> set (map fst old)"
    with assms(1) have "\<not> inherited key"
      by (auto simp: plain_keys_def list_all_iff)
    then show "(\<not> js_in key new) = (map_of new key = None)"
      by (simp add: js_in_plain)
  qed
  show ?thesis
    by (simp only: diffAttrs_eq 1 2)
qed

lemmas attr_reads = js_get_def js_in_def inherited_def object_prototype_def

lemma diff_same_tag:
  "diff (VElem t a cs) (VElem t a' cs') =
     Some (UPDATE (diffAttrs (Some a) (Some a')) (diffChildren (Some cs) (Some cs')))"
  by (simp add: diff.simps)

lemma diffChildren_Some:
  "diffChildren (Some cs) (Some cs') =
     map (\<lambda>i. diff (js_index cs i) (js_index cs' i)) [0..<max (length cs) (length cs')]"
  by (simp add: diffChildren.simps or_empty_def)

subsection \<open>The decision table of diff\<close>

text \<open>
  C1, as stated, fails: the claim lists the rule for differing JavaScript types before
  the rules for absent nodes, but \<open>diff\<close> tests for an absent old node first.
  \<open>null\<close> (of type \<open>object\<close>) against the text \<open>a\<close> (of type \<open>string\<close>) is a type
  mismatch, and the result is CREATE, not REPLACE.
\<close>

theorem diff_type_mismatch_counterexample:
  "typeof VNull \<noteq> typeof (VStr ''a'') \<and> diff VNull (VStr ''a'') = Some (CREATE (VStr ''a''))"
  by (simp add: diff.simps)

text \<open>
  C1, amended: for tree-description nodes, the rules hold in the order of the code. An
  absent old node gives CREATE of the new node, whatever the new node is. Otherwise, with
  an old node that passes the truthiness test, an absent new node gives REMOVE. Otherwise,
  with both nodes passing the truthiness test, differing JavaScript types or differing
  tags give REPLACE of the new node. UPDATE is returned only for two Elements with the
  same tag. (Text scalars that fail the truthiness test, the empty string, 0 and NaN, are
  left out of the statement.)
\<close>

theorem diff_rules_in_order:
  assumes "\<not> is_array oldNode" and "\<not> is_array newNode"
  shows "(absent oldNode \<longrightarrow> diff oldNode newNode = Some (CREATE newNode))
    \<and> (\<not> falsy oldNode \<and> absent newNode \<longrightarrow> diff oldNode newNode = Some REMOVE)
    \<and> (\<not> falsy oldNode \<and> \<not> falsy newNode
         \<and> (typeof oldNode \<noteq> typeof newNode \<or> tag oldNode \<noteq> tag newNode)
        \<longrightarrow> diff oldNode newNode = Some (REPLACE newNode))
    \<and> (\<forall>as ps. diff oldNode newNode = Some (UPDATE as ps)
        \<longrightarrow> (\<exists>t a c a' c'. oldNode = VElem t a c \<and> newNode = VElem t a' c'))"
proof -
  have abs: "absent v \<Longrightarrow> falsy v" for v by (cases v) simp_all
  have 1: "absent oldNode \<longrightarrow> diff oldNode newNode = Some (CREATE newNode)"
    by (simp add: diff.simps abs)
  have 2: "\<not> falsy oldNode \<and> absent newNode \<longrightarrow> diff oldNode newNode = Some REMOVE"
    by (simp add: diff.simps abs)
  have 3: "\<not> falsy oldNode \<and> \<not> falsy newNode
         \<and> (typeof oldNode \<noteq> typeof newNode \<or> tag oldNode \<noteq> tag newNode)
        \<longrightarrow> diff oldNode newNode = Some (REPLACE newNode)"
    by (cases oldNode; cases newNode) (simp_all add: diff.simps)
  have 4: "\<forall>as ps. diff oldNode newNode = Some (UPDATE as ps)
        \<longrightarrow> (\<exists>t a c a' c'. oldNode = VElem t a c \<and> newNode = VElem t a' c')"
    using assms by (cases oldNode; cases newNode) (simp_all add: diff.simps)
  from 1 2 3 4 show ?thesis by blast
qed

text \<open>The amended C1 at concrete nodes, one pair for each rule.\<close>

theorem diff_rules_in_order_witness:
  "diff VFalse (VElem ''p'' [] []) = Some (CREATE (VElem ''p'' [] []))
   \<and> diff (VStr ''a'') VNull = Some REMOVE
   \<and> diff (VStr ''a'') (VElem ''div'' [] []) = Some (REPLACE (VElem ''div'' [] []))
   \<and> diff (VElem ''div'' [] []) (VElem ''span'' [] []) = Some (REPLACE (VElem ''span'' [] []))
   \<and> diff (VElem ''div'' [] []) (VElem ''div'' [(''id'', JStr ''x'')] [])
       = Some (UPDATE [(''id'', JStr ''x'')] [])
   \<and> (\<exists>t a c a' c'. VElem ''div'' [] [] = VElem t a c
         \<and> VElem ''div'' [(''id'', JStr ''x'')] [] = VElem t a' c')"
  using diff_rules_in_order [of VFalse "VElem ''p'' [] []"]
    diff_rules_in_order [of "VStr ''a''" VNull]
    diff_rules_in_order [of "VStr ''a''" "VElem ''div'' [] []"]
    diff_rules_in_order [of "VElem ''div'' [] []" "VElem ''span'' [] []"]
    diff_rules_in_order [of "VElem ''div'' [] []" "VElem ''div'' [(''id'', JStr ''x'')] []"]
  by (simp add: diff_same_tag diffAttrs_eq diffChildren_Some attr_reads)

text \<open>
  The truthiness test of \<open>diff\<close> also takes the empty text and the number 0 for absent
  nodes, although \<open>createDOMElement\<close> materializes both as text: an empty text that
  disappears is reported as CREATE of nothing, not as REMOVE, and an unchanged 0 as CREATE
  of a second 0.
\<close>

lemma diff_falsy_text:
  "diff (VStr []) VNull = Some (CREATE VNull)
   \<and> diff (VNum (Num 0)) (VNum (Num 0)) = Some (CREATE (VNum (Num 0)))
   \<and> createDOMElement (VNum (Num 0)) = Inr (Some (DText ''0''))"
  by (simp add: diff.simps show_nat.simps digit_char_def)

subsection \<open>Attribute changes\<close>

text \<open>
  C5, as stated, fails: a key of the new mapping that is missing in the old one does not
  always count as different. The old mapping is read with \<open>oldAttrs[key]\<close>, which gives
  \<open>undefined\<close> for a missing key, so a new key whose value is \<open>undefined\<close> gives no
  record, where the wording of the claim gives one.
\<close>

theorem diff_attr_changes_counterexample:
  "diff (VElem ''div'' [] []) (VElem ''div'' [(''id'', JUndefined)] []) = Some (UPDATE [] [])
   \<and> spec_attr_changes [] [(''id'', JUndefined)] = [(''id'', JUndefined)]"
  by (simp add: diff_same_tag diffAttrs_eq diffChildren_Some spec_attr_changes_def attr_reads)

text \<open>
  C5, amended: for attribute mappings none of whose keys is the name of a member of
  \<open>Object.prototype\<close>, the attribute-change list of the UPDATE patch of two same-tag
  Elements is exactly: one record (key, new value) for every key of the new mapping whose
  value is not strictly equal to the old one, where a key missing in the old mapping
  reads as \<open>undefined\<close> (so it differs from every value but \<open>undefined\<close>), in the
  iteration order of the new mapping; then one record (key, \<open>undefined\<close>) for every key
  of the old mapping that the new one does not have, in the iteration order of the old
  mapping. Diffing \<open>div {id: x, class: a}\<close> against \<open>div {class: a}\<close> gives the one
  record removing \<open>id\<close>.
\<close>

theorem diff_attr_changes:
  assumes "plain_keys old" and "plain_keys new"
  shows "(\<exists>ps. diff (VElem t old cs) (VElem t new cs') =
      Some (UPDATE
        (filter (\<lambda>(key, v). case map_of old key of
                               None \<Rightarrow> v \<noteq> JUndefined
                             | Some ov \<Rightarrow> \<not> strict_eq ov v) new
         @ map (\<lambda>key. (key, JUndefined)) (filter (\<lambda>key. map_of new key = None) (map fst old)))
        ps))
   \<and> diff (VElem ''div'' [(''id'', JStr ''x''), (''class'', JStr ''a'')] [])
          (VElem ''div'' [(''class'', JStr ''a'')] [])
       = Some (UPDATE [(''id'', JUndefined)] [])"
proof
  show "\<exists>ps. diff (VElem t old cs) (VElem t new cs') =
      Some (UPDATE
        (filter (\<lambda>(key, v). case map_of old key of
                               None \<Rightarrow> v \<noteq> JUndefined
                             | Some ov \<Rightarrow> \<not> strict_eq ov v) new
         @ map (\<lambda>key. (key, JUndefined)) (filter (\<lambda>key. map_of new key = None) (map fst old)))
        ps)"
    by (simp add: diff_same_tag diffAttrs_plain [OF assms])
  show "diff (VElem ''div'' [(''id'', JStr ''x''), (''class'', JStr ''a'')] [])
          (VElem ''div'' [(''class'', JStr ''a'')] [])
       = Some (UPDATE [(''id'', JUndefined)] [])"
    by (simp add: diff_same_tag diffAttrs_eq diffChildren_Some attr_reads)
qed

text \<open>The amended C5 at two concrete mappings with changed, added, kept and removed keys.\<close>

theorem diff_attr_changes_witness:
  "plain_keys [(''href'', JStr ''x''), (''id'', JStr ''i''), (''rel'', JNum NaN),
               (''lang'', JStr ''en'')]
   \<and> plain_keys [(''id'', JStr ''i''), (''title'', JUndefined), (''rel'', JNum NaN),
                 (''href'', JStr ''y'')]
   \<and> diff (VElem ''a'' [(''href'', JStr ''x''), (''id'', JStr ''i''), (''rel'', JNum NaN),
                      (''lang'', JStr ''en'')] [])
        (VElem ''a'' [(''id'', JStr ''i''), (''title'', JUndefined), (''rel'', JNum NaN),
                      (''href'', JStr ''y'')] [])
     = Some (UPDATE [(''rel'', JNum NaN), (''href'', JStr ''y''), (''lang'', JUndefined)] [])"
proof -
  have o: "plain_keys [(''href'', JStr ''x''), (''id'', JStr ''i''), (''rel'', JNum NaN),
               (''lang'', JStr ''en'')]"
    and n: "plain_keys [(''id'', JStr ''i''), (''title'', JUndefined), (''rel'', JNum NaN),
                 (''href'', JStr ''y'')]"
    by (simp_all add: plain_keys_def inherited_def object_prototype_def)
  from diff_attr_changes [OF o n, of "''a''" "[]" "[]"] o n show ?thesis
    by (simp add: diff_same_tag diffChildren_Some)
qed

text \<open>
  For a key that is the name of a member of \<open>Object.prototype\<close> the reads of
  \<open>diffAttrs\<close> see the inherited member: \<open>toString\<close> is \<open>in\<close> the empty new mapping,
  so its removal is not recorded.
\<close>

lemma diff_inherited_keys:
  "diff (VElem ''div'' [(''toString'', JStr ''x''), (''id'', JStr ''i'')] []) (VElem ''div'' [] [])
     = Some (UPDATE [(''id'', JUndefined)] [])"
  by (simp add: diff_same_tag diffAttrs_eq diffChildren_Some attr_reads)

subsection \<open>Child patches\<close>

text \<open>
  C6: the child-patch list of the UPDATE patch of two same-tag Elements has length
  \<open>max (length old.children) (length new.children)\<close>, and its entry \<open>i\<close> is the diff of
  the two children at index \<open>i\<close>, an index out of range reading as \<open>undefined\<close> (absent).
  \<open>ul [a]\<close> against \<open>ul [a, b]\<close> gives the child patches NONE, CREATE(b); the reverse
  direction gives NONE, REMOVE.
\<close>

theorem diffChildren_index_aligned:
  "(\<exists>as ps. diff (VElem t a cs) (VElem t a' cs') = Some (UPDATE as ps)
     \<and> length ps = max (length cs) (length cs')
     \<and> (\<forall>i < length ps. ps ! i = diff (js_index cs i) (js_index cs' i)))
   \<and> diff (VElem ''ul'' [] [VStr ''a'']) (VElem ''ul'' [] [VStr ''a'', VStr ''b''])
       = Some (UPDATE [] [None, Some (CREATE (VStr ''b''))])
   \<and> diff (VElem ''ul'' [] [VStr ''a'', VStr ''b'']) (VElem ''ul'' [] [VStr ''a''])
       = Some (UPDATE [] [None, Some REMOVE])"
proof (intro conjI)
  show "\<exists>as ps. diff (VElem t a cs) (VElem t a' cs') = Some (UPDATE as ps)
     \<and> length ps = max (length cs) (length cs')
     \<and> (\<forall>i < length ps. ps ! i = diff (js_index cs i) (js_index cs' i))"
    by (simp add: diff_same_tag diffChildren_Some)
  show "diff (VElem ''ul'' [] [VStr ''a'']) (VElem ''ul'' [] [VStr ''a'', VStr ''b''])
         = Some (UPDATE [] [None, Some (CREATE (VStr ''b''))])"
    by (simp add: diff_same_tag diffAttrs_eq diffChildren_Some js_index_def diff.simps)
  show "diff (VElem ''ul'' [] [VStr ''a'', VStr ''b'']) (VElem ''ul'' [] [VStr ''a''])
         = Some (UPDATE [] [None, Some REMOVE])"
    by (simp add: diff_same_tag diffAttrs_eq diffChildren_Some js_index_def diff.simps)
qed

text \<open>C6 at a concrete pair: three old children against one new child.\<close>

theorem diffChildren_index_aligned_witness:
  "diff (VElem ''ol'' [] [VStr ''a'', VElem ''li'' [] [], VNull]) (VElem ''ol'' [] [VStr ''b''])
     = Some (UPDATE [] [Some (REPLACE (VStr ''b'')), Some REMOVE, Some (CREATE VUndefined)])"
proof -
  from diffChildren_index_aligned
    [of "''ol''" "[]" "[VStr ''a'', VElem ''li'' [] [], VNull]" "[]" "[VStr ''b'']"]
  obtain as ps where
    d: "diff (VElem ''ol'' [] [VStr ''a'', VElem ''li'' [] [], VNull]) (VElem ''ol'' [] [VStr ''b''])
          = Some (UPDATE as ps)"
    and l: "length ps = 3"
    and n: "\<forall>i<length ps. ps ! i
          = diff (js_index [VStr ''a'', VElem ''li'' [] [], VNull] i) (js_index [VStr ''b''] i)"
    by auto
  from n l have "ps ! 0 = Some (REPLACE (VStr ''b''))" "ps ! 1 = Some REMOVE"
    "ps ! 2 = Some (CREATE VUndefined)"
    by (simp_all add: js_index_def diff.simps)
  with l have "ps = [Some (REPLACE (VStr ''b'')), Some REMOVE, Some (CREATE VUndefined)]"
    by (cases ps; cases "tl ps"; cases "tl (tl ps)") auto
  moreover have "as = []"
    using d by (simp add: diff_same_tag diffAttrs_eq)
  ultimately show ?thesis using d by simp
qed

section \<open>Properties of the tree builder\<close>

lemma flat_unwrap: "flat cs = concat (map (\<lambda>c. case c of VArr xs \<Rightarrow> xs | _ \<Rightarrow> [c]) cs)"
  by (induction cs rule: flat.induct) simp_all

lemma spec_flatten_all_no_array: "\<not> is_array v \<Longrightarrow> spec_flatten_all v = [v]"
  by (cases v) simp_all

lemma spec_flatten_all_shallow:
  "list_all (\<lambda>x. \<not> is_array x) xs \<Longrightarrow> concat (map spec_flatten_all xs) = xs"
  by (induction xs) (simp_all add: spec_flatten_all_no_array)

lemma flat_one_level_eq: "one_level cs \<Longrightarrow> flat cs = concat (map spec_flatten_all cs)"
  by (induction cs rule: flat.induct) (simp_all add: one_level_def spec_flatten_all_shallow)

lemma flat_one_level_no_array: "one_level cs \<Longrightarrow> list_all (\<lambda>c. \<not> is_array c) (flat cs)"
  by (induction cs rule: flat.induct) (simp_all add: one_level_def)

text \<open>
  C4, as stated, fails: \<open>children.flat()\<close> removes one level of nesting only. A child
  group nested two levels deep is stored with one level left, where the full flattening
  is the single text \<open>a\<close>.
\<close>

theorem createElement_nested_counterexample:
  "createElement ''div'' (Some []) (Some [VArr [VArr [VStr ''a'']]])
     = VElem ''div'' [] [VArr [VStr ''a'']]
   \<and> concat (map spec_flatten_all [VArr [VArr [VStr ''a'']]]) = [VStr ''a'']"
  by (simp add: createElement_def or_empty_def)

text \<open>
  C4, amended: the Element returned by \<open>createElement\<close> stores the children sequence
  with exactly one level of nesting removed, in left-to-right order: every child that is
  a sequence is replaced by its members, every other child is kept. When no sequence
  among the children contains a sequence itself, the stored sequence is the full
  flattening and holds no sequence.
\<close>

theorem createElement_flattens_one_level:
  "children (createElement t as (Some cs))
     = Some (concat (map (\<lambda>c. case c of VArr xs \<Rightarrow> xs | _ \<Rightarrow> [c]) cs))
   \<and> (one_level cs \<longrightarrow>
        children (createElement t as (Some cs)) = Some (concat (map spec_flatten_all cs))
        \<and> list_all (\<lambda>c. \<not> is_array c) (or_empty (children (createElement t as (Some cs)))))"
proof -
  have c: "children (createElement t as (Some cs)) = Some (flat cs)"
    by (simp add: createElement_def or_empty_def)
  show ?thesis
    unfolding c using flat_unwrap [of cs] flat_one_level_eq [of cs] flat_one_level_no_array [of cs]
    by (simp add: or_empty_def)
qed

text \<open>The amended C4 at a children argument with groups one level deep.\<close>

theorem createElement_flattens_one_level_witness:
  "one_level [VStr ''a'', VArr [VStr ''b'', VNull], VArr [], VElem ''p'' [] []]
   \<and> children (createElement ''div'' None
        (Some [VStr ''a'', VArr [VStr ''b'', VNull], VArr [], VElem ''p'' [] []]))
     = Some [VStr ''a'', VStr ''b'', VNull, VElem ''p'' [] []]"
  using createElement_flattens_one_level
    [of "''div''" None "[VStr ''a'', VArr [VStr ''b'', VNull], VArr [], VElem ''p'' [] []]"]
  by (simp add: one_level_def)

section \<open>Properties of the event registry\<close>

lemma in_keys_iff: "ev \<in> fst ` set evs \<longleftrightarrow> map_of evs ev \<noteq> None"
  by (simp add: map_of_eq_None_iff)

lemma keys_delete: "fst ` set (AList.delete k al) = fst ` set al - {k}"
  by (auto simp: set_eq_iff in_keys_iff delete_conv')


lemma registry_ok_bindEvent:
  assumes "registry_ok el" and "bindEvent el ev h = Inr el'"
  shows "registry_ok el'"
proof -
  define events where "events = (case registry el of None \<Rightarrow> [] | Some evs \<Rightarrow> evs)"
  from assms(1) have ok: "set (listeners el) = fst ` set events"
    by (simp add: registry_ok_def events_def)
  show ?thesis
  proof (cases "map_of events ev")
    case None
    with assms(2) have "el' = el\<lparr>registry := Some (AList.update ev [h] events),
                                 listeners := List.insert ev (listeners el)\<rparr>"
      by (cases "inherited ev") (simp_all add: bindEvent_def events_def)
    with ok show ?thesis
      by (simp add: registry_ok_def dom_update)
  next
    case (Some handlers)
    with assms(2) have "el' = el\<lparr>registry := Some (AList.update ev (handlers @ [h]) events)\<rparr>"
      by (simp add: bindEvent_def events_def)
    moreover from Some have "ev \<in> fst ` set events"
      by (simp add: in_keys_iff)
    ultimately show ?thesis
      using ok by (auto simp: registry_ok_def dom_update)
  qed
qed

lemma registry_ok_removeListener:
  assumes "registry_ok el" and "removeListener el event h = Inr el'"
  shows "registry_ok el'"
proof (cases "registry el")
  case None
  with assms show ?thesis
    by (simp add: removeListener_def Let_def)
next
  case (Some events)
  define ev where "ev = (if take 2 event = ''on'' then drop 2 event else event)"
  from assms(1) Some have ok: "set (listeners el) = fst ` set events"
    by (simp add: registry_ok_def)
  from assms(2) Some have r:
    "(case map_of events ev of
        None \<Rightarrow> if inherited ev then Inl TypeError else Inr el
      | Some handlers \<Rightarrow>
          if h \<notin> set handlers then Inr el
          else if remove1 h handlers = [] then
            Inr (el\<lparr>registry := Some (AList.delete ev events),
                    listeners := removeAll ev (listeners el)\<rparr>)
          else Inr (el\<lparr>registry := Some (AList.update ev (remove1 h handlers) events)\<rparr>))
     = Inr el'"
    unfolding removeListener_def ev_def Let_def by simp
  show ?thesis
  proof (cases "map_of events ev")
    case None
    with r assms(1) show ?thesis
      by (cases "inherited ev") simp_all
  next
    case handlers: (Some handlers)
    then have key: "ev \<in> fst ` set events"
      by (simp add: in_keys_iff)
    consider "h \<notin> set handlers" | "h \<in> set handlers" "remove1 h handlers = []"
      | "h \<in> set handlers" "remove1 h handlers \<noteq> []"
      by blast
    then show ?thesis
    proof cases
      case 1
      with r handlers assms(1) show ?thesis
        by simp
    next
      case 2
      with r handlers have
        "el' = el\<lparr>registry := Some (AList.delete ev events),
                   listeners := removeAll ev (listeners el)\<rparr>"
        by simp
      with ok show ?thesis
        by (simp add: registry_ok_def keys_delete)
    next
      case 3
      with r handlers have
        "el' = el\<lparr>registry := Some (AList.update ev (remove1 h handlers) events)\<rparr>"
        by simp
      with ok key show ?thesis
        by (auto simp: registry_ok_def dom_update)
    qed
  qed
qed

lemma registry_ok_removeAllListeners: "registry_ok el \<Longrightarrow> registry_ok (removeAllListeners el)"
  by (auto simp: registry_ok_def removeAllListeners_def in_keys_iff split: option.splits)

lemma createAttr_cases:
  "createAttr el (key, v) =
     (if startsWith_on key \<and> typeof_val v = TFunction then
        (case v of JFun h \<Rightarrow> bindEvent el (toLowerCase (drop 2 key)) h | _ \<Rightarrow> Inl TypeError)
      else Inr (if key = ''className'' \<or> key = ''class'' then set_className el v
            else if key = ''style'' \<and> typeof_val v = TObject then assign_style el v
            else if key = ''checked'' \<or> key = ''disabled'' \<or> key = ''selected'' then
              set_property el key v
            else if key = ''value'' then set_property el ''value'' v
            else set_attribute el key v))"
  unfolding createAttr_def
  by (cases v; cases "startsWith_on key") (simp_all only: prod.case bool.case jsval.case typeof_val.simps jstype.distinct if_True if_False simp_thms if_distrib [of Inr])

lemma registry_ok_createAttr:
  assumes "registry_ok el" and "createAttr el kv = Inr el'"
  shows "registry_ok el'"
proof (cases kv)
  case (Pair key v)
  have other: "registry_ok (set_className el x)" "registry_ok (assign_style el x)"
    "registry_ok (set_property el k x)" "registry_ok (set_attribute el k x)" for k x
    using assms(1) by (simp_all add: registry_ok_def set_className_def assign_style_def
        set_property_def set_attribute_def split: jsval.splits)
  show ?thesis
  proof (cases "startsWith_on key \<and> typeof_val v = TFunction")
    case True
    then obtain h where "v = JFun h"
      by (cases v) simp_all
    with True have "createAttr el kv = bindEvent el (toLowerCase (drop 2 key)) h"
      by (simp add: Pair createAttr_def)
    with assms(2) have "bindEvent el (toLowerCase (drop 2 key)) h = Inr el'"
      by simp
    with assms(1) show ?thesis
      by (rule registry_ok_bindEvent)
  next
    case False
    then have "createAttr el kv = Inr
       (if key = ''className'' \<or> key = ''class'' then set_className el v
        else if key = ''style'' \<and> typeof_val v = TObject then assign_style el v
        else if key = ''checked'' \<or> key = ''disabled'' \<or> key = ''selected'' then
          set_property el key v
        else if key = ''value'' then set_property el ''value'' v
        else set_attribute el key v)"
      by (simp only: Pair createAttr_cases if_False)
    with assms(2) have "el' =
       (if key = ''className'' \<or> key = ''class'' then set_className el v
        else if key = ''style'' \<and> typeof_val v = TObject then assign_style el v
        else if key = ''checked'' \<or> key = ''disabled'' \<or> key = ''selected'' then
          set_property el key v
        else if key = ''value'' then set_property el ''value'' v
        else set_attribute el key v)"
      by simp
    then show ?thesis
      by (simp only: other split: if_split) simp
  qed
qed



lemma dispatch_unwired: "\<not> wired ev \<Longrightarrow> dispatch wired el ev = Inr []"
  by (simp add: dispatch_def)




section \<open>Properties of the patcher\<close>

text \<open>
  C3, as stated, fails: an UPDATE patch addressed at an index where the parent has no
  display child is skipped by the guard \<open>if (element)\<close>. The call returns normally and
  the parent is unchanged.
\<close>

theorem patch_update_missing_child_counterexample:
  "child_at (DElem (new_element ''div'') []) 0 = None
   \<and> patch (DElem (new_element ''div'') []) (Some (UPDATE [(''id'', JStr ''x'')] [])) 0
     = Inr (DElem (new_element ''div'') [])"
  by (simp add: child_at_def)

text \<open>
  C3, amended: for every parent display node, applying an UPDATE patch at an index where
  the parent has no display child is silently ignored: \<open>patch\<close> returns normally and
  leaves the parent as it was, whatever the attribute changes and child patches are.
\<close>

theorem patch_update_missing_child:
  assumes "child_at parent index = None"
  shows "patch parent (Some (UPDATE attrPatches childPatches)) index = Inr parent"
  using assms by simp

text \<open>The amended C3 on a list with one child, addressed at index 1.\<close>

theorem patch_update_missing_child_witness:
  "child_at (DElem (new_element ''ul'') [DText ''a'']) 1 = None
   \<and> patch (DElem (new_element ''ul'') [DText ''a''])
        (Some (UPDATE [(''class'', JStr ''x'')] [Some REMOVE])) 1
      = Inr (DElem (new_element ''ul'') [DText ''a''])"
  using patch_update_missing_child [of "DElem (new_element ''ul'') [DText ''a'']" 1
      "[(''class'', JStr ''x'')]" "[Some REMOVE]"]
  by (simp add: child_at_def)

text \<open>
  A patch can fail: an UPDATE that sets an attribute, addressed at a text node, raises.
\<close>

lemma patch_can_fail:
  "patch (DElem (new_element ''p'') [DText ''a'']) (Some (UPDATE [(''id'', JStr ''x'')] [])) 0
     = Inl TypeError"
  by (simp add: child_at_def patchAttr_def startsWith_on_def)

text \<open>Materializing an element with a handler for an inherited event name raises.\<close>

lemma createDOMElement_can_fail:
  "createDOMElement (VElem ''div'' [(''onConstructor'', JFun 21)] []) = Inl TypeError"
  by (simp add: createAttr_def startsWith_on_def toLowerCase_def bindEvent_def new_element_def
      inherited_def object_prototype_def)

subsection \<open>The attribute-binding policy\<close>

text \<open>
  \<open>createDOMElement\<close> assigns each of \<open>checked\<close>, \<open>disabled\<close>, \<open>selected\<close> and
  \<open>value\<close> as a property. \<open>patchAttrs\<close> does so for \<open>checked\<close>, \<open>disabled\<close> and
  \<open>value\<close> (when the value is not \<open>undefined\<close>), and calls \<open>setAttribute\<close> for
  \<open>selected\<close>.
\<close>

lemma createAttr_live_properties:
  "createAttr el (''checked'', v) = Inr (set_property el ''checked'' v)
   \<and> createAttr el (''disabled'', v) = Inr (set_property el ''disabled'' v)
   \<and> createAttr el (''selected'', v) = Inr (set_property el ''selected'' v)
   \<and> createAttr el (''value'', v) = Inr (set_property el ''value'' v)"
  by (cases v) (simp_all add: createAttr_def startsWith_on_def)

lemma patchAttr_live_properties:
  "v \<noteq> JUndefined \<Longrightarrow>
   patchAttr (DElem el cs) (''checked'', v) = Inr (DElem (set_property el ''checked'' v) cs)
   \<and> patchAttr (DElem el cs) (''disabled'', v) = Inr (DElem (set_property el ''disabled'' v) cs)
   \<and> patchAttr (DElem el cs) (''value'', v) = Inr (DElem (set_property el ''value'' v) cs)
   \<and> patchAttr (DElem el cs) (''selected'', v) = Inr (DElem (set_attribute el ''selected'' v) cs)"
  by (cases v) (simp_all add: patchAttr_def startsWith_on_def)

text \<open>
  C7 fails on the code for the key \<open>selected\<close>: \<open>patchAttrs\<close> sets the content
  attribute \<open>selected\<close> and leaves the properties alone, where \<open>createDOMElement\<close>
  assigns the property \<open>selected\<close> for the same key and value.
\<close>

theorem patchAttrs_selected_sets_attribute:
  "patchAttrs (DElem (new_element ''option'') []) [(''selected'', JBool True)]
     = Inr (DElem ((new_element ''option'')\<lparr>attributes := [(''selected'', JBool True)]\<rparr>) [])
   \<and> createDOMElement (VElem ''option'' [(''selected'', JBool True)] [])
     = Inr (Some (DElem ((new_element ''option'')\<lparr>props := [(''selected'', JBool True)]\<rparr>) []))"
  by (simp add: patchAttr_def createAttr_def startsWith_on_def set_attribute_def
      set_property_def new_element_def)

section \<open>Properties of mount\<close>

lemma mount_unresolved:
  "resolve w t = Inr None \<Longrightarrow>
   mount t vNode w
     = Inr (w\<lparr>console_error := console_error w @ [(''Mount target not found:'', t)]\<rparr>)"
  by (simp add: mount_def)






section \<open>Properties of rendering the same description again\<close>

lemma absent_falsy: "absent v \<Longrightarrow> falsy v"
  by (cases v) simp_all

lemma steady_falsy_absent: "steady v \<Longrightarrow> falsy v \<Longrightarrow> absent v"
  by (cases v) auto

lemma absent_createDOMElement: "absent v \<Longrightarrow> createDOMElement v = Inr None"
  by (cases v) simp_all

lemma diffAttrs_self:
  assumes "distinct (map fst as)" and "\<forall>kv \<in> set as. strict_eq (snd kv) (snd kv)"
  shows "diffAttrs (Some as) (Some as) = []"
proof -
  have own: "map_of as key = Some v" if "(key, v) \<in> set as" for key v
    using that assms(1) by simp
  have 1: "filter (\<lambda>(key, v). \<not> strict_eq (js_get as key) v) as = []"
    using assms(2) by (auto simp: filter_empty_conv js_get_def own)
  have 2: "filter (\<lambda>key. \<not> js_in key as) (map fst as) = []"
    by (auto simp: filter_empty_conv js_in_def own)
  show ?thesis
    by (simp only: diffAttrs_eq 1 2) simp
qed

lemma diffChildren_self:
  "diffChildren (Some cs) (Some cs) = map (\<lambda>c. diff c c) cs"
proof -
  have "map (\<lambda>i. diff (js_index cs i) (js_index cs i)) [0..<length cs]
      = map (\<lambda>i. (\<lambda>c. diff c c) (cs ! i)) [0..<length cs]"
    by (simp add: js_index_def)
  also have "\<dots> = map (\<lambda>c. diff c c) cs"
    by (rule nth_equalityI) simp_all
  finally show ?thesis
    by (simp add: diffChildren_Some)
qed

lemma steady_diff_inert: "steady D \<Longrightarrow> inert (diff D D)"
proof (induction D)
  case (VElem t as cs)
  then show ?case
    by (simp add: diff_same_tag diffAttrs_self diffChildren_self)
next
  case (VArr xs)
  show ?case
    by (simp add: diff.simps diffAttrs_def diffChildren.simps or_empty_def)
qed (simp_all add: diff.simps)

text \<open>An inert patch changes no display node and raises nothing, wherever it is applied.\<close>

lemma inert_patch:
  "inert p \<Longrightarrow> patch parent p index = Inr parent"
  "\<forall>p \<in> set ps. inert p \<Longrightarrow> patchChildren_from parent ps i = Inr parent"
proof (induction parent p index and parent ps i rule: patch_patchChildren_from.induct)
  case (5 parent attrPatches childPatches index)
  show ?case
  proof (cases "child_at parent index")
    case None
    then show ?thesis by simp
  next
    case (Some element)
    from "5.prems" have a: "attrPatches = []" and c: "\<forall>p \<in> set childPatches. inert p"
      by simp_all
    have "patchChildren_from element childPatches 0 = Inr element"
      using "5.IH" [OF Some, of element] a c by simp
    moreover have "with_child parent index element = parent"
      using Some by (cases parent) (auto simp: child_at_def split: if_splits)
    ultimately show ?thesis
      using Some a by simp
  qed
qed (simp_all add: absent_createDOMElement)

lemma clear_innerHTML_fixed: "childNodes n = [] \<Longrightarrow> clear_innerHTML n = n"
  by (cases n) simp_all

lemma childNodes_clear: "childNodes (clear_innerHTML n) = []"
  by (cases n) simp_all

lemma remove_only_child:
  "length (childNodes n) \<le> 1 \<Longrightarrow> patch n (Some REMOVE) 0 = Inr n' \<Longrightarrow> childNodes n' = []"
  by (cases n) (auto simp: child_at_def split: if_splits)

lemma resolve_update:
  "resolve (w\<lparr>node_at := f, virtualTreeCache := g\<rparr>) t = resolve w t"
  by (cases t) (simp_all add: resolve_def)

text \<open>
  C2, as stated, fails: at the position of an absent child the second diff yields
  CREATE of the absent node, which is neither NONE nor an UPDATE.
\<close>

theorem remount_counterexample:
  "diff (VElem ''div'' [] [VNull]) (VElem ''div'' [] [VNull])
     = Some (UPDATE [] [Some (CREATE VNull)])
   \<and> \<not> spec_no_change (diff (VElem ''div'' [] [VNull]) (VElem ''div'' [] [VNull]))"
  by (simp add: diff_same_tag diffAttrs_eq diffChildren_Some js_index_def diff.simps)

text \<open>
  C2, amended: for every container \<open>c\<close> and every description \<open>D\<close> whose text scalars
  all pass the truthiness test and whose attribute values are strictly equal to
  themselves, a mount of \<open>D\<close> into \<open>c\<close> that succeeded, followed by a second mount of
  \<open>D\<close> into \<open>c\<close>, leaves the display tree, the cache and the log exactly as the first
  mount left them, because the diff of \<open>D\<close> against itself yields, at every position,
  NONE, CREATE of an absent node (which materializes to nothing) or an UPDATE whose
  attribute-change list is empty and whose child patches are of these forms again. (For an
  absent \<open>D\<close> the container is taken to hold at most one display child, the root that
  earlier mounts rendered: the second mount of an absent \<open>D\<close> clears the container.)
\<close>

theorem remount_same_description:
  assumes "steady D" and "resolve w t = Inr (Some c)"
    and "absent D \<longrightarrow> length (childNodes (node_at w c)) \<le> 1"
    and "mount t D w = Inr w1"
  shows "mount t D w1 = Inr w1 \<and> inert (diff D D)"
proof -
  from assms(2,4) obtain node where
    inner: "(case virtualTreeCache w c of
               None \<Rightarrow> first_render (node_at w c) D
             | Some oldVNode \<Rightarrow>
                 if falsy oldVNode then first_render (node_at w c) D
                 else patch (node_at w c) (diff oldVNode D) 0) = Inr node"
    and w1: "w1 = w\<lparr>node_at := (node_at w)(c := node),
                     virtualTreeCache := (virtualTreeCache w)(c \<mapsto> D)\<rparr>"
    by (auto simp: mount_def split: sum.splits)
  have res: "resolve w1 t = Inr (Some c)"
    using assms(2) by (simp add: w1 resolve_update)
  have same: "w1\<lparr>node_at := (node_at w1)(c := node),
                 virtualTreeCache := (virtualTreeCache w1)(c \<mapsto> D)\<rparr> = w1"
    by (simp add: w1)
  have again: "(if falsy D then first_render node D else patch node (diff D D) 0) = Inr node"
  proof (cases "falsy D")
    case True
    with assms(1) have abs: "absent D" by (rule steady_falsy_absent)
    then have none: "createDOMElement D = Inr None" by (rule absent_createDOMElement)
    have "childNodes node = []"
    proof (cases "virtualTreeCache w c")
      case None
      with inner none show ?thesis
        by (auto simp: first_render_def childNodes_clear)
    next
      case (Some oldVNode)
      show ?thesis
      proof (cases "falsy oldVNode")
        case True
        with inner none Some show ?thesis
          by (auto simp: first_render_def childNodes_clear)
      next
        case False
        with True have "diff oldVNode D = Some REMOVE"
          by (simp add: diff.simps)
        with inner Some False have p: "patch (node_at w c) (Some REMOVE) 0 = Inr node"
          by simp
        from assms(3) abs have "length (childNodes (node_at w c)) \<le> 1"
          by simp
        from remove_only_child [OF this p] show ?thesis .
      qed
    qed
    with True none show ?thesis
      by (simp add: first_render_def clear_innerHTML_fixed)
  next
    case False
    with steady_diff_inert [OF assms(1)] show ?thesis
      by (simp add: inert_patch)
  qed
  have c1: "virtualTreeCache w1 c = Some D" and n1: "node_at w1 c = node"
    by (simp_all add: w1)
  have "mount t D w1 = Inr (w1\<lparr>node_at := (node_at w1)(c := node),
                 virtualTreeCache := (virtualTreeCache w1)(c \<mapsto> D)\<rparr>)"
    using again by (simp add: mount_def res c1 n1 split: if_splits)
  with same have "mount t D w1 = Inr w1"
    by simp
  with steady_diff_inert [OF assms(1)] show ?thesis by simp
qed

text \<open>
  The amended C2 on the example document, for a description with an attribute, an event
  handler, a text, an absent child and a nested element with a number.
\<close>

theorem remount_same_description_witness:
  "steady (VElem ''div'' [(''id'', JStr ''x''), (''onClick'', JFun 21)]
            [VStr ''a'', VNull, VElem ''span'' [] [VNum (Num 2)]])
   \<and> resolve page (TSelector ''#app'') = Inr (Some 0)
   \<and> (\<exists>w1. mount (TSelector ''#app'')
          (VElem ''div'' [(''id'', JStr ''x''), (''onClick'', JFun 21)]
            [VStr ''a'', VNull, VElem ''span'' [] [VNum (Num 2)]]) page = Inr w1
        \<and> mount (TSelector ''#app'')
          (VElem ''div'' [(''id'', JStr ''x''), (''onClick'', JFun 21)]
            [VStr ''a'', VNull, VElem ''span'' [] [VNum (Num 2)]]) w1 = Inr w1
        \<and> childNodes (node_at w1 0)
          = [DElem ((new_element ''div'')\<lparr>attributes := [(''id'', JStr ''x'')],
                      registry := Some [(''click'', [21])], listeners := [''click'']\<rparr>)
               [DText ''a'', DElem (new_element ''span'') [DText ''2'']]])"
proof -
  let ?D = "VElem ''div'' [(''id'', JStr ''x''), (''onClick'', JFun 21)]
            [VStr ''a'', VNull, VElem ''span'' [] [VNum (Num 2)]]"
  have s: "steady ?D" by simp
  have r: "resolve page (TSelector ''#app'') = Inr (Some 0)" by (simp add: resolve_def page_def)
  have a: "absent ?D \<longrightarrow> length (childNodes (node_at page 0)) \<le> 1" by simp
  have n: "node_at page 0 = DElem (new_element ''div'') []"
    and v: "virtualTreeCache page 0 = None"
    by (simp_all add: page_def)
  let ?node = "DElem (new_element ''div'')
      [DElem ((new_element ''div'')\<lparr>attributes := [(''id'', JStr ''x'')],
                      registry := Some [(''click'', [21])], listeners := [''click'']\<rparr>)
               [DText ''a'', DElem (new_element ''span'') [DText ''2'']]]"
  let ?w1 = "page\<lparr>node_at := (node_at page)(0 := ?node),
                  virtualTreeCache := (virtualTreeCache page)(0 \<mapsto> ?D)\<rparr>"
  have f: "first_render (DElem (new_element ''div'') []) ?D = Inr ?node"
    by (simp add: first_render_def createAttr_def startsWith_on_def
        toLowerCase_def bindEvent_def set_attribute_def new_element_def show_nat.simps
        digit_char_def inherited_def object_prototype_def)
  have m: "mount (TSelector ''#app'') ?D page = Inr ?w1"
    by (simp add: mount_def r n v f)
  have c: "childNodes (node_at ?w1 0)
          = [DElem ((new_element ''div'')\<lparr>attributes := [(''id'', JStr ''x'')],
                      registry := Some [(''click'', [21])], listeners := [''click'']\<rparr>)
               [DText ''a'', DElem (new_element ''span'') [DText ''2'']]]"
    by simp
  from remount_same_description [OF s r a m] m c s r show ?thesis by blast
qed

text \<open>
  A text child that fails the truthiness test breaks the re-render: \<open>diff\<close> takes the
  cached 0 for an absent node and returns CREATE, and the second mount of the same
  description appends a second text node.
\<close>

lemma remount_zero_text_duplicates:
  "\<exists>w1 w2. mount (TNode 0) (VElem ''p'' [] [VNum (Num 0)]) page = Inr w1
     \<and> mount (TNode 0) (VElem ''p'' [] [VNum (Num 0)]) w1 = Inr w2
     \<and> node_at w1 0 = DElem (new_element ''div'') [DElem (new_element ''p'') [DText ''0'']]
     \<and> node_at w2 0 = DElem (new_element ''div'')
                          [DElem (new_element ''p'') [DText ''0'', DText ''0'']]"
  by (simp add: mount_def resolve_def first_render_def page_def show_nat.simps digit_char_def
      diff_same_tag diffAttrs_eq diffChildren_Some js_index_def diff.simps child_at_def)

end
